theory Spec2Isabelle
  imports Main
begin

section \<open>Clone authorization (pkg/clone/auth.go)\<close>

text \<open>
  The four entry points of \<^verbatim>\<open>pkg/clone/auth.go\<close> decide whether an identity may clone
  a PVC or a snapshot out of a source namespace. They build a
  \<^verbatim>\<open>SubjectAccessReviewSpec\<close>, submit one to three \<^verbatim>\<open>SubjectAccessReview\<close> objects
  through \<^verbatim>\<open>client.Create\<close> and combine the answers.

  Go strings are byte sequences and are modelled as \<open>string\<close>. The \<^verbatim>\<open>klog\<close> calls only
  format their arguments and are left out.
\<close>

subsection \<open>Data of the Kubernetes API that the file touches\<close>

text \<open>
  Only the fields that \<^verbatim>\<open>auth.go\<close> reads or writes are kept. A Go map that may be
  \<^verbatim>\<open>nil\<close> is an \<open>option\<close> of a map, a pointer that may be \<^verbatim>\<open>nil\<close> is an \<open>option\<close>.
  \<^verbatim>\<open>authentication.ExtraValue\<close> and \<^verbatim>\<open>authorization.ExtraValue\<close> are both
  \<^verbatim>\<open>[]string\<close>.
\<close>

type_synonym ExtraValue = "string list"

record UserInfo =
  Username :: string
  Groups :: "string list"
  Extra :: "(string \<rightharpoonup> ExtraValue) option"

record ResourceAttributes =
  Namespace :: string
  Verb :: string
  Group :: string
  Resource :: string
  Subresource :: string
  Name :: string

record SubjectAccessReviewSpec =
  ResourceAttributes :: "ResourceAttributes option"
  User :: string
  Groups :: "string list"
  Extra :: "(string \<rightharpoonup> ExtraValue) option"

record SubjectAccessReviewStatus =
  Allowed :: bool

record SubjectAccessReview =
  Spec :: SubjectAccessReviewSpec
  Status :: SubjectAccessReviewStatus

text \<open>
  The two constants of package \<^verbatim>\<open>cdiv1\<close> used by the file
  (\<^verbatim>\<open>cdiv1.SchemeGroupVersion.Group\<close> and \<^verbatim>\<open>cdiv1.DataVolumeCloneSourceSubresource\<close>)
  are declared outside \<^verbatim>\<open>auth.go\<close>; they are parameters of the model.
\<close>

record cdiv1 =
  SchemeGroupVersion_Group :: string
  DataVolumeCloneSourceSubresource :: string

subsection \<open>The client and the results\<close>

text \<open>
  \<^verbatim>\<open>SubjectAccessReviewsProxy\<close> is an interface with the single method
  \<^verbatim>\<open>Create(*SubjectAccessReview) (*SubjectAccessReview, error)\<close>. An implementation may
  keep state between calls, so the method takes the state \<open>'c\<close> of the client and returns
  the new one. The response is a pointer and the error an interface value: each may be
  \<^verbatim>\<open>nil\<close>. Errors are opaque values of a type \<open>'e\<close>.

  The client reads the query it is given and does not write through it: the queries of a
  call are values, although in Go they share the group slice and the extra map of one
  \<^verbatim>\<open>sarSpec\<close>. A client call is taken to return; a client that blocks forever is outside
  the model.
\<close>

type_synonym ('c, 'e) SubjectAccessReviewsProxy =
  "'c \<Rightarrow> SubjectAccessReview \<Rightarrow> (SubjectAccessReview option \<times> 'e option) \<times> 'c"

text \<open>
  A call either returns the Go triple \<^verbatim>\<open>(bool, string, error)\<close> or panics when it reads
  \<^verbatim>\<open>response.Status.Allowed\<close> through a \<^verbatim>\<open>nil\<close> response.
\<close>

datatype 'e outcome =
  Return bool string "'e option"
| NilPointerPanic

subsection \<open>Query construction\<close>

definition getResourceAttributesPvc :: "cdiv1 \<Rightarrow> string \<Rightarrow> string \<Rightarrow> ResourceAttributes list" where
  "getResourceAttributesPvc k namespace name =
     [ \<lparr>Namespace = namespace, Verb = ''create'', Group = SchemeGroupVersion_Group k,
        Resource = ''datavolumes'', Subresource = DataVolumeCloneSourceSubresource k,
        Name = name\<rparr>,
       \<lparr>Namespace = namespace, Verb = ''create'', Group = [],
        Resource = ''pods'', Subresource = [], Name = name\<rparr> ]"

definition getExplicitResourceAttributeSnapshot :: "cdiv1 \<Rightarrow> string \<Rightarrow> string \<Rightarrow> ResourceAttributes" where
  "getExplicitResourceAttributeSnapshot k namespace name =
     \<lparr>Namespace = namespace, Verb = ''create'', Group = SchemeGroupVersion_Group k,
      Resource = ''datavolumes'', Subresource = DataVolumeCloneSourceSubresource k,
      Name = name\<rparr>"

definition getImplicitResourceAttributesSnapshot :: "string \<Rightarrow> string \<Rightarrow> ResourceAttributes list" where
  "getImplicitResourceAttributesSnapshot namespace name =
     [ \<lparr>Namespace = namespace, Verb = ''create'', Group = [],
        Resource = ''pods'', Subresource = [], Name = name\<rparr>,
       \<lparr>Namespace = namespace, Verb = ''create'', Group = [],
        Resource = ''pvcs'', Subresource = [], Name = name\<rparr> ]"

subsection \<open>Submitting the queries\<close>

text \<open>
  Each query is \<^verbatim>\<open>&authorization.SubjectAccessReview{Spec: sarSpec}\<close> followed by
  \<^verbatim>\<open>sar.Spec.ResourceAttributes = &ra\<close>: a copy of the subject's spec with the resource
  attributes set; its status is the zero value. \<^verbatim>\<open>fmt.Sprintf\<close> with \<^verbatim>\<open>%s\<close> verbs
  is concatenation.
\<close>

text \<open>
  The loop of \<^verbatim>\<open>sendSubjectAccessReviewsPvc\<close> (lines 134 to 153). \<open>Inl\<close> is a return or a
  panic from inside the loop, \<open>Inr\<close> the value of \<^verbatim>\<open>allowed\<close> when the loop is left.
\<close>

fun loopPvc ::
  "('c, 'e) SubjectAccessReviewsProxy \<Rightarrow> SubjectAccessReviewSpec \<Rightarrow> ResourceAttributes list
     \<Rightarrow> 'c \<Rightarrow> ('e outcome + bool) \<times> 'c" where
  "loopPvc client sarSpec [] c = (Inr False, c)"
| "loopPvc client sarSpec (ra # ras) c =
     (let sar = \<lparr>Spec = sarSpec\<lparr>ResourceAttributes := Some ra\<rparr>, Status = \<lparr>Allowed = False\<rparr>\<rparr>;
          ((response, err), c') = client c sar
      in case err of
           Some e \<Rightarrow> (Inl (Return False [] (Some e)), c')
         | None \<Rightarrow>
             (case response of
                None \<Rightarrow> (Inl NilPointerPanic, c')
              | Some r \<Rightarrow>
                  if Allowed (Status r) then (Inr True, c')
                  else loopPvc client sarSpec ras c'))"

definition sendSubjectAccessReviewsPvc ::
  "cdiv1 \<Rightarrow> ('c, 'e) SubjectAccessReviewsProxy \<Rightarrow> string \<Rightarrow> string \<Rightarrow> SubjectAccessReviewSpec
     \<Rightarrow> 'c \<Rightarrow> 'e outcome \<times> 'c" where
  "sendSubjectAccessReviewsPvc k client namespace name sarSpec c =
     (case loopPvc client sarSpec (getResourceAttributesPvc k namespace name) c of
        (Inl out, c') \<Rightarrow> (out, c')
      | (Inr allowed, c') \<Rightarrow>
          if \<not> allowed
          then (Return False
                  (''User '' @ User sarSpec
                     @ '' has insufficient permissions in clone source namespace '' @ namespace)
                  None, c')
          else (Return True [] None, c'))"

text \<open>
  The loop over the implicit conditions of \<^verbatim>\<open>sendSubjectAccessReviewsSnapshot\<close>
  (lines 184 to 202). \<open>Inl\<close> is a return or a panic from inside the loop, \<open>Inr ()\<close> is
  falling out of it.
\<close>

fun loopSnapshot ::
  "('c, 'e) SubjectAccessReviewsProxy \<Rightarrow> string \<Rightarrow> SubjectAccessReviewSpec \<Rightarrow> ResourceAttributes list
     \<Rightarrow> 'c \<Rightarrow> ('e outcome + unit) \<times> 'c" where
  "loopSnapshot client namespace sarSpec [] c = (Inr (), c)"
| "loopSnapshot client namespace sarSpec (ra # ras) c =
     (let sar = \<lparr>Spec = sarSpec\<lparr>ResourceAttributes := Some ra\<rparr>, Status = \<lparr>Allowed = False\<rparr>\<rparr>;
          ((response, err), c') = client c sar
      in case err of
           Some e \<Rightarrow> (Inl (Return False [] (Some e)), c')
         | None \<Rightarrow>
             (case response of
                None \<Rightarrow> (Inl NilPointerPanic, c')
              | Some r \<Rightarrow>
                  if \<not> Allowed (Status r)
                  then (Inl (Return False
                              (''User '' @ User sarSpec
                                 @ '' has insufficient permissions in clone source namespace ''
                                 @ namespace)
                              None), c')
                  else loopSnapshot client namespace sarSpec ras c'))"

definition sendSubjectAccessReviewsSnapshot ::
  "cdiv1 \<Rightarrow> ('c, 'e) SubjectAccessReviewsProxy \<Rightarrow> string \<Rightarrow> string \<Rightarrow> SubjectAccessReviewSpec
     \<Rightarrow> 'c \<Rightarrow> 'e outcome \<times> 'c" where
  "sendSubjectAccessReviewsSnapshot k client namespace name sarSpec c =
     (let explicitResourceAttr = getExplicitResourceAttributeSnapshot k namespace name;
          sar = \<lparr>Spec = sarSpec\<lparr>ResourceAttributes := Some explicitResourceAttr\<rparr>,
                 Status = \<lparr>Allowed = False\<rparr>\<rparr>;
          ((response, err), c') = client c sar
      in case err of
           Some e \<Rightarrow> (Return False [] (Some e), c')
         | None \<Rightarrow>
             (case response of
                None \<Rightarrow> (NilPointerPanic, c')
              | Some r \<Rightarrow>
                  if Allowed (Status r) then (Return True [] None, c')
                  else
                    (case loopSnapshot client namespace sarSpec
                            (getImplicitResourceAttributesSnapshot namespace name) c' of
                       (Inl out, c'') \<Rightarrow> (out, c'')
                     | (Inr u, c'') \<Rightarrow> (Return True [] None, c''))))"

subsection \<open>The four entry points\<close>

text \<open>
  Lines 50 to 56 and 94 to 100: \<^verbatim>\<open>newExtra\<close> stays \<^verbatim>\<open>nil\<close> unless the user's map has
  an entry; otherwise every entry is stored in a fresh map, its value converted to
  \<^verbatim>\<open>authorization.ExtraValue\<close>.
\<close>

definition newExtra :: "(string \<rightharpoonup> ExtraValue) option \<Rightarrow> (string \<rightharpoonup> ExtraValue) option" where
  "newExtra extra =
     (case extra of
        None \<Rightarrow> None
      | Some m \<Rightarrow>
          if dom m \<noteq> {}
          then Some (\<lambda>key. case m key of None \<Rightarrow> None | Some v \<Rightarrow> Some v)
          else None)"

definition CanUserClonePVC ::
  "cdiv1 \<Rightarrow> ('c, 'e) SubjectAccessReviewsProxy \<Rightarrow> string \<Rightarrow> string \<Rightarrow> string \<Rightarrow> UserInfo
     \<Rightarrow> 'c \<Rightarrow> 'e outcome \<times> 'c" where
  "CanUserClonePVC k client sourceNamespace pvcName targetNamespace userInfo c =
     (if sourceNamespace = targetNamespace then (Return True [] None, c)
      else
        let sarSpec = \<lparr>ResourceAttributes = None, User = Username userInfo,
                       Groups = UserInfo.Groups userInfo,
                       Extra = newExtra (UserInfo.Extra userInfo)\<rparr>
        in sendSubjectAccessReviewsPvc k client sourceNamespace pvcName sarSpec c)"

definition CanServiceAccountClonePVC ::
  "cdiv1 \<Rightarrow> ('c, 'e) SubjectAccessReviewsProxy \<Rightarrow> string \<Rightarrow> string \<Rightarrow> string \<Rightarrow> string
     \<Rightarrow> 'c \<Rightarrow> 'e outcome \<times> 'c" where
  "CanServiceAccountClonePVC k client pvcNamespace pvcName saNamespace saName c =
     (if pvcNamespace = saNamespace then (Return True [] None, c)
      else
        let user = ''system:serviceaccount:'' @ saNamespace @ '':'' @ saName;
            sarSpec = \<lparr>ResourceAttributes = None, User = user,
                       Groups = [''system:serviceaccounts'',
                                 ''system:serviceaccounts:'' @ saNamespace,
                                 ''system:authenticated''],
                       Extra = None\<rparr>
        in sendSubjectAccessReviewsPvc k client pvcNamespace pvcName sarSpec c)"

definition CanUserCloneSnapshot ::
  "cdiv1 \<Rightarrow> ('c, 'e) SubjectAccessReviewsProxy \<Rightarrow> string \<Rightarrow> string \<Rightarrow> string \<Rightarrow> UserInfo
     \<Rightarrow> 'c \<Rightarrow> 'e outcome \<times> 'c" where
  "CanUserCloneSnapshot k client sourceNamespace pvcName targetNamespace userInfo c =
     (if sourceNamespace = targetNamespace then (Return True [] None, c)
      else
        let sarSpec = \<lparr>ResourceAttributes = None, User = Username userInfo,
                       Groups = UserInfo.Groups userInfo,
                       Extra = newExtra (UserInfo.Extra userInfo)\<rparr>
        in sendSubjectAccessReviewsSnapshot k client sourceNamespace pvcName sarSpec c)"

definition CanServiceAccountCloneSnapshot ::
  "cdiv1 \<Rightarrow> ('c, 'e) SubjectAccessReviewsProxy \<Rightarrow> string \<Rightarrow> string \<Rightarrow> string \<Rightarrow> string
     \<Rightarrow> 'c \<Rightarrow> 'e outcome \<times> 'c" where
  "CanServiceAccountCloneSnapshot k client pvcNamespace pvcName saNamespace saName c =
     (if pvcNamespace = saNamespace then (Return True [] None, c)
      else
        let user = ''system:serviceaccount:'' @ saNamespace @ '':'' @ saName;
            sarSpec = \<lparr>ResourceAttributes = None, User = user,
                       Groups = [''system:serviceaccounts'',
                                 ''system:serviceaccounts:'' @ saNamespace,
                                 ''system:authenticated''],
                       Extra = None\<rparr>
        in sendSubjectAccessReviewsSnapshot k client pvcNamespace pvcName sarSpec c)"

subsection \<open>A client that records what it is asked\<close>

text \<open>
  To speak about the queries a call submits, any client is wrapped into one that appends
  each \<^verbatim>\<open>SubjectAccessReview\<close> it receives to a log before handing it on.
\<close>

definition recording ::
  "('c, 'e) SubjectAccessReviewsProxy \<Rightarrow> (SubjectAccessReview list \<times> 'c, 'e) SubjectAccessReviewsProxy" where
  "recording client = (\<lambda>(log, c) sar. case client c sar of (r, c') \<Rightarrow> (r, (log @ [sar], c')))"

text \<open>
  To speak about the answers as well, a client is wrapped into one that appends each
  query together with the answer it got (the response and the error, either of which may
  be \<^verbatim>\<open>nil\<close>) to a transcript.
\<close>

definition transcribing ::
  "('c, 'e) SubjectAccessReviewsProxy
     \<Rightarrow> ((SubjectAccessReview \<times> (SubjectAccessReview option \<times> 'e option)) list \<times> 'c, 'e)
          SubjectAccessReviewsProxy" where
  "transcribing client =
     (\<lambda>(t, c) sar. case client c sar of (r, c') \<Rightarrow> (r, (t @ [(sar, r)], c')))"

subsection \<open>Notation for the statements\<close>

text \<open>
  The query built from a subject's spec and resource attributes, the three kinds of
  resource attributes, and the subject of a user and of a service account, written out
  field by field.
\<close>

abbreviation review :: "SubjectAccessReviewSpec \<Rightarrow> ResourceAttributes \<Rightarrow> SubjectAccessReview" where
  "review subject ra \<equiv>
     \<lparr>Spec = subject\<lparr>ResourceAttributes := Some ra\<rparr>, Status = \<lparr>Allowed = False\<rparr>\<rparr>"

abbreviation datavolumesSource :: "cdiv1 \<Rightarrow> string \<Rightarrow> string \<Rightarrow> ResourceAttributes" where
  "datavolumesSource k namespace name \<equiv>
     \<lparr>Namespace = namespace, Verb = ''create'', Group = SchemeGroupVersion_Group k,
      Resource = ''datavolumes'', Subresource = DataVolumeCloneSourceSubresource k,
      Name = name\<rparr>"

abbreviation pods :: "string \<Rightarrow> string \<Rightarrow> ResourceAttributes" where
  "pods namespace name \<equiv>
     \<lparr>Namespace = namespace, Verb = ''create'', Group = [], Resource = ''pods'',
      Subresource = [], Name = name\<rparr>"

abbreviation pvcs :: "string \<Rightarrow> string \<Rightarrow> ResourceAttributes" where
  "pvcs namespace name \<equiv>
     \<lparr>Namespace = namespace, Verb = ''create'', Group = [], Resource = ''pvcs'',
      Subresource = [], Name = name\<rparr>"

abbreviation userSubject :: "UserInfo \<Rightarrow> SubjectAccessReviewSpec" where
  "userSubject userInfo \<equiv>
     \<lparr>ResourceAttributes = None, User = Username userInfo,
      Groups = UserInfo.Groups userInfo, Extra = newExtra (UserInfo.Extra userInfo)\<rparr>"

abbreviation serviceAccountSubject :: "string \<Rightarrow> string \<Rightarrow> SubjectAccessReviewSpec" where
  "serviceAccountSubject saNamespace saName \<equiv>
     \<lparr>ResourceAttributes = None,
      User = ''system:serviceaccount:'' @ saNamespace @ '':'' @ saName,
      Groups = [''system:serviceaccounts'', ''system:serviceaccounts:'' @ saNamespace,
                ''system:authenticated''],
      Extra = None\<rparr>"

text \<open>
  What the client answers to query \<open>q\<close> in state \<open>c\<close>, moving to state \<open>c'\<close>: a response
  that allows, a response that does not, or an error (whatever response comes with it).
\<close>

abbreviation allows ::
  "('c, 'e) SubjectAccessReviewsProxy \<Rightarrow> 'c \<Rightarrow> SubjectAccessReview \<Rightarrow> 'c \<Rightarrow> bool" where
  "allows client c q c' \<equiv> \<exists>r. client c q = ((Some r, None), c') \<and> Allowed (Status r)"

abbreviation denies ::
  "('c, 'e) SubjectAccessReviewsProxy \<Rightarrow> 'c \<Rightarrow> SubjectAccessReview \<Rightarrow> 'c \<Rightarrow> bool" where
  "denies client c q c' \<equiv> \<exists>r. client c q = ((Some r, None), c') \<and> \<not> Allowed (Status r)"

abbreviation fails ::
  "('c, 'e) SubjectAccessReviewsProxy \<Rightarrow> 'c \<Rightarrow> SubjectAccessReview \<Rightarrow> 'e \<Rightarrow> 'c \<Rightarrow> bool" where
  "fails client c q e c' \<equiv> \<exists>r. client c q = ((r, Some e), c')"

text \<open>
  A query carries the subject \<open>s\<close> when its user, groups and extra map are those of \<open>s\<close>;
  it asks for create on an object when its resource attributes are set, with verb
  \<^verbatim>\<open>create\<close> and the given namespace and name.
\<close>

abbreviation carriesSubject :: "SubjectAccessReview \<Rightarrow> SubjectAccessReviewSpec \<Rightarrow> bool" where
  "carriesSubject q s \<equiv>
     User (Spec q) = User s \<and> Groups (Spec q) = Groups s \<and> Extra (Spec q) = Extra s"

abbreviation createOn :: "SubjectAccessReview \<Rightarrow> string \<Rightarrow> string \<Rightarrow> bool" where
  "createOn q namespace name \<equiv>
     \<exists>ra. ResourceAttributes (Spec q) = Some ra
        \<and> Verb ra = ''create'' \<and> Namespace ra = namespace \<and> Name ra = name"


subsection \<open>A scripted client for concrete runs\<close>

text \<open>
  A fake evaluator: its state is the list of answers still to give. \<open>Allow\<close> and \<open>Deny\<close>
  echo the query with the status set, \<open>Fail e\<close> returns the error \<open>e\<close> and no response, and
  an exhausted script returns neither a response nor an error.
\<close>

datatype 'e answer = Allow | Deny | Fail 'e

fun scripted :: "('e answer list, 'e) SubjectAccessReviewsProxy" where
  "scripted [] sar = ((None, None), [])"
| "scripted (Allow # rest) sar = ((Some (sar\<lparr>Status := \<lparr>Allowed = True\<rparr>\<rparr>), None), rest)"
| "scripted (Deny # rest) sar = ((Some (sar\<lparr>Status := \<lparr>Allowed = False\<rparr>\<rparr>), None), rest)"
| "scripted (Fail e # rest) sar = ((None, Some e), rest)"

definition cdi :: cdiv1 where
  "cdi = \<lparr>SchemeGroupVersion_Group = ''cdi.kubevirt.io'',
          DataVolumeCloneSourceSubresource = ''source''\<rparr>"

definition alice :: UserInfo where
  "alice = \<lparr>Username = ''alice'', Groups = [], Extra = None\<rparr>"

definition bob :: UserInfo where
  "bob = \<lparr>Username = ''bob'', Groups = [''dev''],
          Extra = Some [''scopes'' \<mapsto> [''a'', ''b'']]\<rparr>"

section \<open>Properties\<close>

lemmas entry_defs =
  CanUserClonePVC_def CanServiceAccountClonePVC_def
  CanUserCloneSnapshot_def CanServiceAccountCloneSnapshot_def

lemmas send_defs =
  sendSubjectAccessReviewsPvc_def sendSubjectAccessReviewsSnapshot_def
  getResourceAttributesPvc_def getExplicitResourceAttributeSnapshot_def
  getImplicitResourceAttributesSnapshot_def

lemma recording_step:
  "recording client (l, c) q = (fst (client c q), (l @ [q], snd (client c q)))"
  by (simp add: recording_def split: prod.splits)

subsection \<open>Recording changes nothing\<close>

text \<open>
  The recording client answers as the client it wraps, so a call through it returns what
  the call through the client itself returns and leaves the client in the same state.
\<close>

lemma loopPvc_recording:
  "fst (loopPvc (recording client) spec ras (l, c)) = fst (loopPvc client spec ras c)
   \<and> snd (snd (loopPvc (recording client) spec ras (l, c))) = snd (loopPvc client spec ras c)"
proof (induction ras arbitrary: l c)
  case Nil
  show ?case by simp
next
  case (Cons ra ras)
  obtain response err c' where step: "client c (review spec ra) = ((response, err), c')"
    by (metis surj_pair)
  with Cons.IH [of "l @ [review spec ra]" c'] show ?case
    by (cases err; cases response) (simp_all add: recording_step)
qed

lemma loopSnapshot_recording:
  "fst (loopSnapshot (recording client) namespace spec ras (l, c))
     = fst (loopSnapshot client namespace spec ras c)
   \<and> snd (snd (loopSnapshot (recording client) namespace spec ras (l, c)))
     = snd (loopSnapshot client namespace spec ras c)"
proof (induction ras arbitrary: l c)
  case Nil
  show ?case by simp
next
  case (Cons ra ras)
  obtain response err c' where step: "client c (review spec ra) = ((response, err), c')"
    by (metis surj_pair)
  with Cons.IH [of "l @ [review spec ra]" c'] show ?case
    by (cases err; cases response) (simp_all add: recording_step)
qed

lemma pvc_recording:
  "fst (sendSubjectAccessReviewsPvc k (recording client) namespace name spec (l, c))
     = fst (sendSubjectAccessReviewsPvc k client namespace name spec c)
   \<and> snd (snd (sendSubjectAccessReviewsPvc k (recording client) namespace name spec (l, c)))
     = snd (sendSubjectAccessReviewsPvc k client namespace name spec c)"
proof -
  let ?ras = "getResourceAttributesPvc k namespace name"
  obtain r l' c' where rec: "loopPvc (recording client) spec ?ras (l, c) = (r, (l', c'))"
    by (metis surj_pair)
  with loopPvc_recording [of client spec ?ras l c]
  have "loopPvc client spec ?ras c = (r, c')"
    by (simp add: prod_eq_iff)
  with rec show ?thesis
    by (simp add: sendSubjectAccessReviewsPvc_def split: sum.splits)
qed

lemma snapshot_recording:
  "fst (sendSubjectAccessReviewsSnapshot k (recording client) namespace name spec (l, c))
     = fst (sendSubjectAccessReviewsSnapshot k client namespace name spec c)
   \<and> snd (snd (sendSubjectAccessReviewsSnapshot k (recording client) namespace name spec (l, c)))
     = snd (sendSubjectAccessReviewsSnapshot k client namespace name spec c)"
proof -
  let ?q = "review spec (getExplicitResourceAttributeSnapshot k namespace name)"
  let ?ras = "getImplicitResourceAttributesSnapshot namespace name"
  obtain response err c' where step: "client c ?q = ((response, err), c')"
    by (metis surj_pair)
  obtain r l'' c'' where
    rec: "loopSnapshot (recording client) namespace spec ?ras (l @ [?q], c') = (r, (l'', c''))"
    by (metis surj_pair)
  with loopSnapshot_recording [of client namespace spec ?ras "l @ [?q]" c']
  have "loopSnapshot client namespace spec ?ras c' = (r, c'')"
    by (simp add: prod_eq_iff)
  with rec step show ?thesis
    by (cases err; cases response)
       (simp_all add: sendSubjectAccessReviewsSnapshot_def recording_step split: sum.splits)
qed

lemma entry_points_recording:
  "fst (CanUserClonePVC k (recording client) sourceNamespace pvcName targetNamespace userInfo
          (l, c))
     = fst (CanUserClonePVC k client sourceNamespace pvcName targetNamespace userInfo c)"
  "fst (CanServiceAccountClonePVC k (recording client) pvcNamespace pvcName saNamespace saName
          (l, c))
     = fst (CanServiceAccountClonePVC k client pvcNamespace pvcName saNamespace saName c)"
  "fst (CanUserCloneSnapshot k (recording client) sourceNamespace pvcName targetNamespace
          userInfo (l, c))
     = fst (CanUserCloneSnapshot k client sourceNamespace pvcName targetNamespace userInfo c)"
  "fst (CanServiceAccountCloneSnapshot k (recording client) pvcNamespace pvcName saNamespace
          saName (l, c))
     = fst (CanServiceAccountCloneSnapshot k client pvcNamespace pvcName saNamespace saName c)"
  by (simp_all add: entry_defs pvc_recording snapshot_recording)

subsection \<open>The runs of the PVC policy, answer by answer\<close>

lemma pvc_first_allowed:
  assumes "allows client c (review sarSpec (datavolumesSource k namespace name)) c'"
  shows "sendSubjectAccessReviewsPvc k (recording client) namespace name sarSpec ([], c)
           = (Return True [] None, ([review sarSpec (datavolumesSource k namespace name)], c'))"
  using assms by (auto simp add: send_defs recording_step)

lemma pvc_second_allowed:
  assumes "denies client c (review sarSpec (datavolumesSource k namespace name)) c'"
    and "allows client c' (review sarSpec (pods namespace name)) c''"
  shows "sendSubjectAccessReviewsPvc k (recording client) namespace name sarSpec ([], c)
           = (Return True [] None,
              ([review sarSpec (datavolumesSource k namespace name),
                review sarSpec (pods namespace name)], c''))"
  using assms by (auto simp add: send_defs recording_step)

lemma pvc_both_denied:
  assumes "denies client c (review sarSpec (datavolumesSource k namespace name)) c'"
    and "denies client c' (review sarSpec (pods namespace name)) c''"
    and "User sarSpec = user"
  shows "sendSubjectAccessReviewsPvc k (recording client) namespace name sarSpec ([], c)
           = (Return False
                (''User '' @ user
                   @ '' has insufficient permissions in clone source namespace '' @ namespace)
                None,
              ([review sarSpec (datavolumesSource k namespace name),
                review sarSpec (pods namespace name)], c''))"
  using assms by (auto simp add: send_defs recording_step)

lemma pvc_first_fails:
  assumes "fails client c (review sarSpec (datavolumesSource k namespace name)) e c'"
  shows "sendSubjectAccessReviewsPvc k (recording client) namespace name sarSpec ([], c)
           = (Return False [] (Some e),
              ([review sarSpec (datavolumesSource k namespace name)], c'))"
  using assms by (auto simp add: send_defs recording_step)

lemma pvc_second_fails:
  assumes "denies client c (review sarSpec (datavolumesSource k namespace name)) c'"
    and "fails client c' (review sarSpec (pods namespace name)) e c''"
  shows "sendSubjectAccessReviewsPvc k (recording client) namespace name sarSpec ([], c)
           = (Return False [] (Some e),
              ([review sarSpec (datavolumesSource k namespace name),
                review sarSpec (pods namespace name)], c''))"
  using assms by (auto simp add: send_defs recording_step)

subsection \<open>The runs of the snapshot policy, answer by answer\<close>

lemma snapshot_explicit_allowed:
  assumes "allows client c (review sarSpec (datavolumesSource k namespace name)) c'"
  shows "sendSubjectAccessReviewsSnapshot k (recording client) namespace name sarSpec ([], c)
           = (Return True [] None, ([review sarSpec (datavolumesSource k namespace name)], c'))"
  using assms by (auto simp add: send_defs recording_step)

lemma snapshot_implicit_allowed:
  assumes "denies client c (review sarSpec (datavolumesSource k namespace name)) c'"
    and "allows client c' (review sarSpec (pods namespace name)) c''"
    and "allows client c'' (review sarSpec (pvcs namespace name)) c'''"
  shows "sendSubjectAccessReviewsSnapshot k (recording client) namespace name sarSpec ([], c)
           = (Return True [] None,
              ([review sarSpec (datavolumesSource k namespace name),
                review sarSpec (pods namespace name),
                review sarSpec (pvcs namespace name)], c'''))"
  using assms by (auto simp add: send_defs recording_step)

lemma snapshot_pods_denied:
  assumes "denies client c (review sarSpec (datavolumesSource k namespace name)) c'"
    and "denies client c' (review sarSpec (pods namespace name)) c''"
    and "User sarSpec = user"
  shows "sendSubjectAccessReviewsSnapshot k (recording client) namespace name sarSpec ([], c)
           = (Return False
                (''User '' @ user
                   @ '' has insufficient permissions in clone source namespace '' @ namespace)
                None,
              ([review sarSpec (datavolumesSource k namespace name),
                review sarSpec (pods namespace name)], c''))"
  using assms by (auto simp add: send_defs recording_step)

lemma snapshot_pvcs_denied:
  assumes "denies client c (review sarSpec (datavolumesSource k namespace name)) c'"
    and "allows client c' (review sarSpec (pods namespace name)) c''"
    and "denies client c'' (review sarSpec (pvcs namespace name)) c'''"
    and "User sarSpec = user"
  shows "sendSubjectAccessReviewsSnapshot k (recording client) namespace name sarSpec ([], c)
           = (Return False
                (''User '' @ user
                   @ '' has insufficient permissions in clone source namespace '' @ namespace)
                None,
              ([review sarSpec (datavolumesSource k namespace name),
                review sarSpec (pods namespace name),
                review sarSpec (pvcs namespace name)], c'''))"
  using assms by (auto simp add: send_defs recording_step)

lemma snapshot_explicit_fails:
  assumes "fails client c (review sarSpec (datavolumesSource k namespace name)) e c'"
  shows "sendSubjectAccessReviewsSnapshot k (recording client) namespace name sarSpec ([], c)
           = (Return False [] (Some e),
              ([review sarSpec (datavolumesSource k namespace name)], c'))"
  using assms by (auto simp add: send_defs recording_step)

lemma snapshot_pods_fails:
  assumes "denies client c (review sarSpec (datavolumesSource k namespace name)) c'"
    and "fails client c' (review sarSpec (pods namespace name)) e c''"
  shows "sendSubjectAccessReviewsSnapshot k (recording client) namespace name sarSpec ([], c)
           = (Return False [] (Some e),
              ([review sarSpec (datavolumesSource k namespace name),
                review sarSpec (pods namespace name)], c''))"
  using assms by (auto simp add: send_defs recording_step)

lemma snapshot_pvcs_fails:
  assumes "denies client c (review sarSpec (datavolumesSource k namespace name)) c'"
    and "allows client c' (review sarSpec (pods namespace name)) c''"
    and "fails client c'' (review sarSpec (pvcs namespace name)) e c'''"
  shows "sendSubjectAccessReviewsSnapshot k (recording client) namespace name sarSpec ([], c)
           = (Return False [] (Some e),
              ([review sarSpec (datavolumesSource k namespace name),
                review sarSpec (pods namespace name),
                review sarSpec (pvcs namespace name)], c'''))"
  using assms by (auto simp add: send_defs recording_step)

subsection \<open>The same-namespace shortcut\<close>

text \<open>
  C1. When the source namespace equals the target namespace (for a service account: its
  own namespace), each of the four operations returns \<^verbatim>\<open>(true, "", nil)\<close> and leaves the
  client as it was: the recording client's log and the client's state are unchanged,
  whatever the identity and the object name.
\<close>

theorem same_namespace_shortcut:
  "CanUserClonePVC k (recording client) ns pvcName ns userInfo (l, c)
     = (Return True [] None, (l, c))
   \<and> CanServiceAccountClonePVC k (recording client) ns pvcName ns saName (l, c)
     = (Return True [] None, (l, c))
   \<and> CanUserCloneSnapshot k (recording client) ns pvcName ns userInfo (l, c)
     = (Return True [] None, (l, c))
   \<and> CanServiceAccountCloneSnapshot k (recording client) ns pvcName ns saName (l, c)
     = (Return True [] None, (l, c))"
  by (simp add: entry_defs)

subsection \<open>PVC clones: the first allowed query decides\<close>

text \<open>
  C2. For a PVC clone across namespaces, by a user or by a service account: when the
  client allows the first query (create on the clone-source subresource of datavolumes),
  the call returns \<^verbatim>\<open>(true, "", nil)\<close> and that query is the only one submitted; when the
  client denies the first query and allows the second (create on pods), the call returns
  \<^verbatim>\<open>(true, "", nil)\<close> and exactly these two queries were submitted, in this order.
\<close>

theorem pvc_clone_short_circuit_or:
  assumes "sourceNamespace \<noteq> targetNamespace" and "pvcNamespace \<noteq> saNamespace"
  shows
    "(let q1 = review (userSubject userInfo) (datavolumesSource k sourceNamespace pvcName);
          q2 = review (userSubject userInfo) (pods sourceNamespace pvcName);
          run = CanUserClonePVC k (recording client) sourceNamespace pvcName targetNamespace
                  userInfo ([], c)
      in (allows client c q1 c' \<longrightarrow> run = (Return True [] None, ([q1], c')))
       \<and> (denies client c q1 c' \<and> allows client c' q2 c''
            \<longrightarrow> run = (Return True [] None, ([q1, q2], c''))))
   \<and> (let q1 = review (serviceAccountSubject saNamespace saName)
                  (datavolumesSource k pvcNamespace pvcName);
          q2 = review (serviceAccountSubject saNamespace saName) (pods pvcNamespace pvcName);
          run = CanServiceAccountClonePVC k (recording client) pvcNamespace pvcName saNamespace
                  saName ([], c)
      in (allows client c q1 c' \<longrightarrow> run = (Return True [] None, ([q1], c')))
       \<and> (denies client c q1 c' \<and> allows client c' q2 c''
            \<longrightarrow> run = (Return True [] None, ([q1, q2], c''))))"
proof -
  have user: "CanUserClonePVC k (recording client) sourceNamespace pvcName targetNamespace
                userInfo ([], c)
              = sendSubjectAccessReviewsPvc k (recording client) sourceNamespace pvcName
                  (userSubject userInfo) ([], c)"
    using assms(1) by (simp add: CanUserClonePVC_def)
  have sa: "CanServiceAccountClonePVC k (recording client) pvcNamespace pvcName saNamespace
              saName ([], c)
            = sendSubjectAccessReviewsPvc k (recording client) pvcNamespace pvcName
                (serviceAccountSubject saNamespace saName) ([], c)"
    using assms(2) by (simp add: CanServiceAccountClonePVC_def)
  show ?thesis
    unfolding Let_def user sa
    by (intro conjI impI; (elim conjE)?; (rule pvc_first_allowed pvc_second_allowed; assumption))
qed

theorem pvc_clone_short_circuit_or_witness:
  "CanUserClonePVC cdi (recording scripted) ''src'' ''data-1'' ''dst'' alice
       ([], [Allow, Fail ''unused''])
     = (Return True [] None,
        ([review (userSubject alice) (datavolumesSource cdi ''src'' ''data-1'')],
         [Fail ''unused'']))
   \<and> CanUserClonePVC cdi (recording scripted) ''src'' ''data-1'' ''dst'' alice
       ([], [Deny, Allow :: string answer])
     = (Return True [] None,
        ([review (userSubject alice) (datavolumesSource cdi ''src'' ''data-1''),
          review (userSubject alice) (pods ''src'' ''data-1'')], []))
   \<and> CanServiceAccountClonePVC cdi (recording scripted) ''src'' ''data-1'' ''dst'' ''builder''
       ([], [Allow, Fail ''unused''])
     = (Return True [] None,
        ([review (serviceAccountSubject ''dst'' ''builder'')
            (datavolumesSource cdi ''src'' ''data-1'')],
         [Fail ''unused'']))
   \<and> CanServiceAccountClonePVC cdi (recording scripted) ''src'' ''data-1'' ''dst'' ''builder''
       ([], [Deny, Allow :: string answer])
     = (Return True [] None,
        ([review (serviceAccountSubject ''dst'' ''builder'')
            (datavolumesSource cdi ''src'' ''data-1''),
          review (serviceAccountSubject ''dst'' ''builder'') (pods ''src'' ''data-1'')], []))"
  using
    pvc_clone_short_circuit_or [where sourceNamespace = "''src''" and targetNamespace = "''dst''"
      and pvcNamespace = "''src''" and saNamespace = "''dst''" and k = cdi
      and pvcName = "''data-1''" and userInfo = alice and saName = "''builder''"
      and client = scripted and c = "[Allow, Fail ''unused'']" and c' = "[Fail ''unused'']"]
    pvc_clone_short_circuit_or [where sourceNamespace = "''src''" and targetNamespace = "''dst''"
      and pvcNamespace = "''src''" and saNamespace = "''dst''" and k = cdi
      and pvcName = "''data-1''" and userInfo = alice and saName = "''builder''"
      and client = scripted and c = "[Deny, Allow :: string answer]" and c' = "[Allow]"
      and c'' = "[]"]
  by (simp add: Let_def)

subsection \<open>Crossing namespaces: the entry points hand over to the two policies\<close>

lemma CanUserClonePVC_cross:
  "sourceNamespace \<noteq> targetNamespace \<Longrightarrow>
   CanUserClonePVC k client sourceNamespace pvcName targetNamespace userInfo c
     = sendSubjectAccessReviewsPvc k client sourceNamespace pvcName (userSubject userInfo) c"
  by (simp add: CanUserClonePVC_def)

lemma CanServiceAccountClonePVC_cross:
  "pvcNamespace \<noteq> saNamespace \<Longrightarrow>
   CanServiceAccountClonePVC k client pvcNamespace pvcName saNamespace saName c
     = sendSubjectAccessReviewsPvc k client pvcNamespace pvcName
         (serviceAccountSubject saNamespace saName) c"
  by (simp add: CanServiceAccountClonePVC_def)

lemma CanUserCloneSnapshot_cross:
  "sourceNamespace \<noteq> targetNamespace \<Longrightarrow>
   CanUserCloneSnapshot k client sourceNamespace pvcName targetNamespace userInfo c
     = sendSubjectAccessReviewsSnapshot k client sourceNamespace pvcName
         (userSubject userInfo) c"
  by (simp add: CanUserCloneSnapshot_def)

lemma CanServiceAccountCloneSnapshot_cross:
  "pvcNamespace \<noteq> saNamespace \<Longrightarrow>
   CanServiceAccountCloneSnapshot k client pvcNamespace pvcName saNamespace saName c
     = sendSubjectAccessReviewsSnapshot k client pvcNamespace pvcName
         (serviceAccountSubject saNamespace saName) c"
  by (simp add: CanServiceAccountCloneSnapshot_def)

subsection \<open>Snapshot clones: the explicit query\<close>

text \<open>
  C3. For a snapshot clone across namespaces, by a user or by a service account: when the
  client allows the explicit query (create on the clone-source subresource of
  datavolumes), the call returns \<^verbatim>\<open>(true, "", nil)\<close> and that query is the only one
  submitted: neither the pods nor the pvcs query reaches the client.
\<close>

theorem snapshot_clone_explicit_allowed:
  assumes "sourceNamespace \<noteq> targetNamespace" and "pvcNamespace \<noteq> saNamespace"
  shows
    "(let s = userSubject userInfo;
          q1 = review s (datavolumesSource k sourceNamespace pvcName);
          q2 = review s (pods sourceNamespace pvcName);
          run = CanUserCloneSnapshot k (recording client) sourceNamespace pvcName targetNamespace
                  userInfo ([], c)
      in (allows client c q1 c' \<longrightarrow> run = (Return True [] None, ([q1], c'))))
   \<and> (let s = serviceAccountSubject saNamespace saName;
          q1 = review s (datavolumesSource k pvcNamespace pvcName);
          q2 = review s (pods pvcNamespace pvcName);
          run = CanServiceAccountCloneSnapshot k (recording client) pvcNamespace pvcName
                  saNamespace saName ([], c)
      in (allows client c q1 c' \<longrightarrow> run = (Return True [] None, ([q1], c'))))"
  unfolding Let_def CanUserCloneSnapshot_cross [OF assms(1)] CanServiceAccountCloneSnapshot_cross [OF assms(2)]
  by (intro conjI impI; (elim conjE)?; (rule snapshot_explicit_allowed; assumption))

theorem snapshot_clone_explicit_allowed_witness:
  "CanUserCloneSnapshot cdi (recording scripted) ''src'' ''snap-1'' ''dst'' bob
       ([], [Allow, Fail ''unused'', Fail ''unused''])
     = (Return True [] None,
        ([review (userSubject bob) (datavolumesSource cdi ''src'' ''snap-1'')],
         [Fail ''unused'', Fail ''unused'']))
   \<and> CanServiceAccountCloneSnapshot cdi (recording scripted) ''src'' ''snap-1'' ''dst''
       ''builder'' ([], [Allow, Fail ''unused'', Fail ''unused''])
     = (Return True [] None,
        ([review (serviceAccountSubject ''dst'' ''builder'')
            (datavolumesSource cdi ''src'' ''snap-1'')],
         [Fail ''unused'', Fail ''unused'']))"
  using
    snapshot_clone_explicit_allowed [where sourceNamespace = "''src''"
      and targetNamespace = "''dst''" and pvcNamespace = "''src''" and saNamespace = "''dst''"
      and k = cdi and pvcName = "''snap-1''" and userInfo = bob and saName = "''builder''"
      and client = scripted and c = "[Allow, Fail ''unused'', Fail ''unused'']"
      and c' = "[Fail ''unused'', Fail ''unused'']"]
  by (simp add: Let_def)

subsection \<open>Snapshot clones: the implicit queries\<close>

text \<open>
  C4. For a snapshot clone across namespaces whose explicit query is denied, the implicit
  queries are submitted in the order pods, pvcs. When both are allowed the call returns
  \<^verbatim>\<open>(true, "", nil)\<close> after three queries. When the pods query is denied the call stops
  there (the pvcs query is not submitted) and returns \<^verbatim>\<open>false\<close> with the reason naming the
  subject's user and the source namespace; when pods is allowed and pvcs denied it returns
  the same denial after three queries.
\<close>

theorem snapshot_clone_implicit_and:
  assumes "sourceNamespace \<noteq> targetNamespace" and "pvcNamespace \<noteq> saNamespace"
  shows
    "(let s = userSubject userInfo;
          q1 = review s (datavolumesSource k sourceNamespace pvcName);
          q2 = review s (pods sourceNamespace pvcName);
          q3 = review s (pvcs sourceNamespace pvcName);
          run = CanUserCloneSnapshot k (recording client) sourceNamespace pvcName targetNamespace
                  userInfo ([], c)
      in (denies client c q1 c' \<and> allows client c' q2 c'' \<and> allows client c'' q3 c'''
            \<longrightarrow> run = (Return True [] None, ([q1, q2, q3], c''')))
       \<and> (denies client c q1 c' \<and> denies client c' q2 c''
            \<longrightarrow> run = (Return False
                     (''User '' @ Username userInfo
                        @ '' has insufficient permissions in clone source namespace ''
                        @ sourceNamespace)
                     None,
                   ([q1, q2], c'')))
       \<and> (denies client c q1 c' \<and> allows client c' q2 c'' \<and> denies client c'' q3 c'''
            \<longrightarrow> run = (Return False
                     (''User '' @ Username userInfo
                        @ '' has insufficient permissions in clone source namespace ''
                        @ sourceNamespace)
                     None,
                   ([q1, q2, q3], c'''))))
   \<and> (let s = serviceAccountSubject saNamespace saName;
          q1 = review s (datavolumesSource k pvcNamespace pvcName);
          q2 = review s (pods pvcNamespace pvcName);
          q3 = review s (pvcs pvcNamespace pvcName);
          run = CanServiceAccountCloneSnapshot k (recording client) pvcNamespace pvcName
                  saNamespace saName ([], c)
      in (denies client c q1 c' \<and> allows client c' q2 c'' \<and> allows client c'' q3 c'''
            \<longrightarrow> run = (Return True [] None, ([q1, q2, q3], c''')))
       \<and> (denies client c q1 c' \<and> denies client c' q2 c''
            \<longrightarrow> run = (Return False
                     (''User '' @ (''system:serviceaccount:'' @ saNamespace @ '':'' @ saName)
                        @ '' has insufficient permissions in clone source namespace ''
                        @ pvcNamespace)
                     None,
                   ([q1, q2], c'')))
       \<and> (denies client c q1 c' \<and> allows client c' q2 c'' \<and> denies client c'' q3 c'''
            \<longrightarrow> run = (Return False
                     (''User '' @ (''system:serviceaccount:'' @ saNamespace @ '':'' @ saName)
                        @ '' has insufficient permissions in clone source namespace ''
                        @ pvcNamespace)
                     None,
                   ([q1, q2, q3], c'''))))"
  unfolding Let_def CanUserCloneSnapshot_cross [OF assms(1)] CanServiceAccountCloneSnapshot_cross [OF assms(2)]
  by (intro conjI impI; (elim conjE)?;
      (rule snapshot_implicit_allowed snapshot_pods_denied snapshot_pvcs_denied;
       (assumption | simp)))

theorem snapshot_clone_implicit_and_witness:
  "CanUserCloneSnapshot cdi (recording scripted) ''src'' ''snap-1'' ''dst'' alice
       ([], [Deny, Allow, Allow :: string answer])
     = (Return True [] None,
        ([review (userSubject alice) (datavolumesSource cdi ''src'' ''snap-1''),
          review (userSubject alice) (pods ''src'' ''snap-1''),
          review (userSubject alice) (pvcs ''src'' ''snap-1'')], []))
   \<and> CanUserCloneSnapshot cdi (recording scripted) ''src'' ''snap-1'' ''dst'' alice
       ([], [Deny, Deny, Fail ''unused''])
     = (Return False ''User alice has insufficient permissions in clone source namespace src''
          None,
        ([review (userSubject alice) (datavolumesSource cdi ''src'' ''snap-1''),
          review (userSubject alice) (pods ''src'' ''snap-1'')], [Fail ''unused'']))
   \<and> CanUserCloneSnapshot cdi (recording scripted) ''src'' ''snap-1'' ''dst'' alice
       ([], [Deny, Allow, Deny :: string answer])
     = (Return False ''User alice has insufficient permissions in clone source namespace src''
          None,
        ([review (userSubject alice) (datavolumesSource cdi ''src'' ''snap-1''),
          review (userSubject alice) (pods ''src'' ''snap-1''),
          review (userSubject alice) (pvcs ''src'' ''snap-1'')], []))
   \<and> CanServiceAccountCloneSnapshot cdi (recording scripted) ''src'' ''snap-1'' ''dst''
       ''builder'' ([], [Deny, Allow, Allow :: string answer])
     = (Return True [] None,
        ([review (serviceAccountSubject ''dst'' ''builder'')
            (datavolumesSource cdi ''src'' ''snap-1''),
          review (serviceAccountSubject ''dst'' ''builder'') (pods ''src'' ''snap-1''),
          review (serviceAccountSubject ''dst'' ''builder'') (pvcs ''src'' ''snap-1'')], []))
   \<and> CanServiceAccountCloneSnapshot cdi (recording scripted) ''src'' ''snap-1'' ''dst''
       ''builder'' ([], [Deny, Deny, Fail ''unused''])
     = (Return False
          ''User system:serviceaccount:dst:builder has insufficient permissions in clone source namespace src''
          None,
        ([review (serviceAccountSubject ''dst'' ''builder'')
            (datavolumesSource cdi ''src'' ''snap-1''),
          review (serviceAccountSubject ''dst'' ''builder'') (pods ''src'' ''snap-1'')],
         [Fail ''unused'']))"
  using
    snapshot_clone_implicit_and [where sourceNamespace = "''src''"
      and targetNamespace = "''dst''" and pvcNamespace = "''src''" and saNamespace = "''dst''"
      and k = cdi and pvcName = "''snap-1''" and userInfo = alice and saName = "''builder''"
      and client = scripted and c = "[Deny, Allow, Allow :: string answer]"
      and c' = "[Allow, Allow]" and c'' = "[Allow]" and c''' = "[]"]
    snapshot_clone_implicit_and [where sourceNamespace = "''src''"
      and targetNamespace = "''dst''" and pvcNamespace = "''src''" and saNamespace = "''dst''"
      and k = cdi and pvcName = "''snap-1''" and userInfo = alice and saName = "''builder''"
      and client = scripted and c = "[Deny, Deny, Fail ''unused'']"
      and c' = "[Deny, Fail ''unused'']" and c'' = "[Fail ''unused'']"]
    snapshot_clone_implicit_and [where sourceNamespace = "''src''"
      and targetNamespace = "''dst''" and pvcNamespace = "''src''" and saNamespace = "''dst''"
      and k = cdi and pvcName = "''snap-1''" and userInfo = alice and saName = "''builder''"
      and client = scripted and c = "[Deny, Allow, Deny :: string answer]"
      and c' = "[Allow, Deny]" and c'' = "[Deny]" and c''' = "[]"]
  by (simp add: Let_def alice_def)

subsection \<open>Errors of the client\<close>

text \<open>
  C5. Across namespaces, in each of the four operations and at each position a query can
  have (first or second for a PVC clone; explicit, pods or pvcs for a snapshot clone): when
  the client returns an error \<open>e\<close> on that query, the call returns \<^verbatim>\<open>(false, "", e)\<close> with
  the same \<open>e\<close>, and the failed query is the last one submitted. The result carries the
  error and an empty reason: it is not a denial.
\<close>

theorem evaluator_error_propagates:
  assumes "sourceNamespace \<noteq> targetNamespace" and "pvcNamespace \<noteq> saNamespace"
  shows
    "(let s = userSubject userInfo;
          q1 = review s (datavolumesSource k sourceNamespace pvcName);
          q2 = review s (pods sourceNamespace pvcName);
          run = CanUserClonePVC k (recording client) sourceNamespace pvcName targetNamespace
                  userInfo ([], c)
      in (fails client c q1 e c' \<longrightarrow> run = (Return False [] (Some e), ([q1], c')))
       \<and> (denies client c q1 c' \<and> fails client c' q2 e c''
            \<longrightarrow> run = (Return False [] (Some e), ([q1, q2], c''))))
   \<and> (let s = serviceAccountSubject saNamespace saName;
          q1 = review s (datavolumesSource k pvcNamespace pvcName);
          q2 = review s (pods pvcNamespace pvcName);
          run = CanServiceAccountClonePVC k (recording client) pvcNamespace pvcName saNamespace
                  saName ([], c)
      in (fails client c q1 e c' \<longrightarrow> run = (Return False [] (Some e), ([q1], c')))
       \<and> (denies client c q1 c' \<and> fails client c' q2 e c''
            \<longrightarrow> run = (Return False [] (Some e), ([q1, q2], c''))))
   \<and> (let s = userSubject userInfo;
          q1 = review s (datavolumesSource k sourceNamespace pvcName);
          q2 = review s (pods sourceNamespace pvcName);
          q3 = review s (pvcs sourceNamespace pvcName);
          run = CanUserCloneSnapshot k (recording client) sourceNamespace pvcName targetNamespace
                  userInfo ([], c)
      in (fails client c q1 e c' \<longrightarrow> run = (Return False [] (Some e), ([q1], c')))
       \<and> (denies client c q1 c' \<and> fails client c' q2 e c''
            \<longrightarrow> run = (Return False [] (Some e), ([q1, q2], c'')))
       \<and> (denies client c q1 c' \<and> allows client c' q2 c'' \<and> fails client c'' q3 e c'''
            \<longrightarrow> run = (Return False [] (Some e), ([q1, q2, q3], c'''))))
   \<and> (let s = serviceAccountSubject saNamespace saName;
          q1 = review s (datavolumesSource k pvcNamespace pvcName);
          q2 = review s (pods pvcNamespace pvcName);
          q3 = review s (pvcs pvcNamespace pvcName);
          run = CanServiceAccountCloneSnapshot k (recording client) pvcNamespace pvcName
                  saNamespace saName ([], c)
      in (fails client c q1 e c' \<longrightarrow> run = (Return False [] (Some e), ([q1], c')))
       \<and> (denies client c q1 c' \<and> fails client c' q2 e c''
            \<longrightarrow> run = (Return False [] (Some e), ([q1, q2], c'')))
       \<and> (denies client c q1 c' \<and> allows client c' q2 c'' \<and> fails client c'' q3 e c'''
            \<longrightarrow> run = (Return False [] (Some e), ([q1, q2, q3], c'''))))"
  unfolding Let_def CanUserClonePVC_cross [OF assms(1)] CanServiceAccountClonePVC_cross [OF assms(2)]
    CanUserCloneSnapshot_cross [OF assms(1)] CanServiceAccountCloneSnapshot_cross [OF assms(2)]
  by (intro conjI impI; (elim conjE)?;
      (rule pvc_first_fails pvc_second_fails snapshot_explicit_fails snapshot_pods_fails
         snapshot_pvcs_fails; assumption))

theorem evaluator_error_propagates_witness:
  "CanUserClonePVC cdi (recording scripted) ''src'' ''data-1'' ''dst'' alice
       ([], [Fail ''boom'', Allow])
     = (Return False [] (Some ''boom''),
        ([review (userSubject alice) (datavolumesSource cdi ''src'' ''data-1'')], [Allow]))
   \<and> CanServiceAccountClonePVC cdi (recording scripted) ''src'' ''data-1'' ''dst'' ''builder''
       ([], [Deny, Fail ''boom''])
     = (Return False [] (Some ''boom''),
        ([review (serviceAccountSubject ''dst'' ''builder'')
            (datavolumesSource cdi ''src'' ''data-1''),
          review (serviceAccountSubject ''dst'' ''builder'') (pods ''src'' ''data-1'')], []))
   \<and> CanUserCloneSnapshot cdi (recording scripted) ''src'' ''data-1'' ''dst'' alice
       ([], [Fail ''boom'', Allow])
     = (Return False [] (Some ''boom''),
        ([review (userSubject alice) (datavolumesSource cdi ''src'' ''data-1'')], [Allow]))
   \<and> CanUserCloneSnapshot cdi (recording scripted) ''src'' ''data-1'' ''dst'' alice
       ([], [Deny, Fail ''boom''])
     = (Return False [] (Some ''boom''),
        ([review (userSubject alice) (datavolumesSource cdi ''src'' ''data-1''),
          review (userSubject alice) (pods ''src'' ''data-1'')], []))
   \<and> CanServiceAccountCloneSnapshot cdi (recording scripted) ''src'' ''data-1'' ''dst''
       ''builder'' ([], [Deny, Allow, Fail ''boom''])
     = (Return False [] (Some ''boom''),
        ([review (serviceAccountSubject ''dst'' ''builder'')
            (datavolumesSource cdi ''src'' ''data-1''),
          review (serviceAccountSubject ''dst'' ''builder'') (pods ''src'' ''data-1''),
          review (serviceAccountSubject ''dst'' ''builder'') (pvcs ''src'' ''data-1'')], []))"
  using
    evaluator_error_propagates [where sourceNamespace = "''src''"
      and targetNamespace = "''dst''" and pvcNamespace = "''src''" and saNamespace = "''dst''"
      and k = cdi and pvcName = "''data-1''" and userInfo = alice and saName = "''builder''"
      and client = scripted and c = "[Fail ''boom'', Allow]" and c' = "[Allow]"
      and e = "''boom''"]
    evaluator_error_propagates [where sourceNamespace = "''src''"
      and targetNamespace = "''dst''" and pvcNamespace = "''src''" and saNamespace = "''dst''"
      and k = cdi and pvcName = "''data-1''" and userInfo = alice and saName = "''builder''"
      and client = scripted and c = "[Deny, Fail ''boom'']" and c' = "[Fail ''boom'']"
      and c'' = "[]" and e = "''boom''"]
    evaluator_error_propagates [where sourceNamespace = "''src''"
      and targetNamespace = "''dst''" and pvcNamespace = "''src''" and saNamespace = "''dst''"
      and k = cdi and pvcName = "''data-1''" and userInfo = alice and saName = "''builder''"
      and client = scripted and c = "[Deny, Allow, Fail ''boom'']"
      and c' = "[Allow, Fail ''boom'']" and c'' = "[Fail ''boom'']" and c''' = "[]"
      and e = "''boom''"]
  by (simp add: Let_def)

subsection \<open>PVC clones: the denial\<close>

text \<open>
  C6. For a PVC clone across namespaces in which the client denies both queries (and
  returns no error), the call returns \<^verbatim>\<open>false\<close>, no error, and the reason
  \<^verbatim>\<open>User <user> has insufficient permissions in clone source namespace <namespace>\<close>, where
  \<^verbatim>\<open><user>\<close> is the user string of the subject (the user name, or
  \<^verbatim>\<open>system:serviceaccount:<saNamespace>:<saName>\<close>) and \<^verbatim>\<open><namespace>\<close> the source namespace.
\<close>

theorem pvc_clone_denied_reason:
  assumes "sourceNamespace \<noteq> targetNamespace" and "pvcNamespace \<noteq> saNamespace"
  shows
    "(let s = userSubject userInfo;
          q1 = review s (datavolumesSource k sourceNamespace pvcName);
          q2 = review s (pods sourceNamespace pvcName);
          run = CanUserClonePVC k (recording client) sourceNamespace pvcName targetNamespace
                  userInfo ([], c)
      in (denies client c q1 c' \<and> denies client c' q2 c''
            \<longrightarrow> run = (Return False
                     (''User '' @ Username userInfo
                        @ '' has insufficient permissions in clone source namespace ''
                        @ sourceNamespace)
                     None,
                   ([q1, q2], c''))))
   \<and> (let s = serviceAccountSubject saNamespace saName;
          q1 = review s (datavolumesSource k pvcNamespace pvcName);
          q2 = review s (pods pvcNamespace pvcName);
          run = CanServiceAccountClonePVC k (recording client) pvcNamespace pvcName saNamespace
                  saName ([], c)
      in (denies client c q1 c' \<and> denies client c' q2 c''
            \<longrightarrow> run = (Return False
                     (''User '' @ (''system:serviceaccount:'' @ saNamespace @ '':'' @ saName)
                        @ '' has insufficient permissions in clone source namespace ''
                        @ pvcNamespace)
                     None,
                   ([q1, q2], c''))))"
  unfolding Let_def CanUserClonePVC_cross [OF assms(1)] CanServiceAccountClonePVC_cross [OF assms(2)]
  by (intro conjI impI; (elim conjE)?; (rule pvc_both_denied; (assumption | simp)))

theorem pvc_clone_denied_reason_witness:
  "CanUserClonePVC cdi (recording scripted) ''src'' ''data-1'' ''dst'' alice
       ([], [Deny, Deny :: string answer])
     = (Return False ''User alice has insufficient permissions in clone source namespace src''
          None,
        ([review (userSubject alice) (datavolumesSource cdi ''src'' ''data-1''),
          review (userSubject alice) (pods ''src'' ''data-1'')], []))
   \<and> CanServiceAccountClonePVC cdi (recording scripted) ''src'' ''data-1'' ''dst'' ''builder''
       ([], [Deny, Deny :: string answer])
     = (Return False
          ''User system:serviceaccount:dst:builder has insufficient permissions in clone source namespace src''
          None,
        ([review (serviceAccountSubject ''dst'' ''builder'')
            (datavolumesSource cdi ''src'' ''data-1''),
          review (serviceAccountSubject ''dst'' ''builder'') (pods ''src'' ''data-1'')], []))"
  using
    pvc_clone_denied_reason [where sourceNamespace = "''src''"
      and targetNamespace = "''dst''" and pvcNamespace = "''src''" and saNamespace = "''dst''"
      and k = cdi and pvcName = "''data-1''" and userInfo = alice and saName = "''builder''"
      and client = scripted and c = "[Deny, Deny :: string answer]" and c' = "[Deny]"
      and c'' = "[]"]
  by (simp add: Let_def alice_def)

subsection \<open>What the loops submit\<close>

lemma loopPvc_log:
  "\<exists>n. n \<le> length ras \<and> (ras = [] \<or> 0 < n) \<and>
     fst (snd (loopPvc (recording client) spec ras (l, c))) = l @ map (review spec) (take n ras)"
proof (induction ras arbitrary: l c)
  case Nil
  show ?case by simp
next
  case (Cons ra ras)
  obtain response err c' where step: "client c (review spec ra) = ((response, err), c')"
    by (metis surj_pair)
  show ?case
  proof (cases "err = None \<and> (\<exists>r. response = Some r \<and> \<not> Allowed (Status r))")
    case True
    then obtain r where r: "err = None" "response = Some r" "\<not> Allowed (Status r)" by blast
    from Cons.IH [of "l @ [review spec ra]" c'] obtain n where
      n: "n \<le> length ras"
         "fst (snd (loopPvc (recording client) spec ras (l @ [review spec ra], c')))
            = (l @ [review spec ra]) @ map (review spec) (take n ras)"
      by blast
    have "fst (snd (loopPvc (recording client) spec (ra # ras) (l, c)))
            = l @ map (review spec) (take (Suc n) (ra # ras))"
      using step r n(2) by (simp add: recording_step)
    with n(1) show ?thesis by (intro exI [of _ "Suc n"]) simp
  next
    case False
    then have "fst (snd (loopPvc (recording client) spec (ra # ras) (l, c))) = l @ [review spec ra]"
      using step by (cases err; cases response) (auto simp: recording_step)
    then show ?thesis by (intro exI [of _ 1]) simp
  qed
qed

lemma loopSnapshot_log:
  "\<exists>n. n \<le> length ras \<and>
     fst (snd (loopSnapshot (recording client) namespace spec ras (l, c)))
       = l @ map (review spec) (take n ras)"
proof (induction ras arbitrary: l c)
  case Nil
  show ?case by simp
next
  case (Cons ra ras)
  obtain response err c' where step: "client c (review spec ra) = ((response, err), c')"
    by (metis surj_pair)
  show ?case
  proof (cases "err = None \<and> (\<exists>r. response = Some r \<and> Allowed (Status r))")
    case True
    then obtain r where r: "err = None" "response = Some r" "Allowed (Status r)" by blast
    from Cons.IH [of "l @ [review spec ra]" c'] obtain n where
      n: "n \<le> length ras"
         "fst (snd (loopSnapshot (recording client) namespace spec ras (l @ [review spec ra], c')))
            = (l @ [review spec ra]) @ map (review spec) (take n ras)"
      by blast
    have "fst (snd (loopSnapshot (recording client) namespace spec (ra # ras) (l, c)))
            = l @ map (review spec) (take (Suc n) (ra # ras))"
      using step r n(2) by (simp add: recording_step)
    with n(1) show ?thesis by (intro exI [of _ "Suc n"]) simp
  next
    case False
    then have "fst (snd (loopSnapshot (recording client) namespace spec (ra # ras) (l, c)))
                 = l @ [review spec ra]"
      using step by (cases err; cases response) (auto simp: recording_step)
    then show ?thesis by (intro exI [of _ 1]) simp
  qed
qed

lemma pvc_state:
  "snd (sendSubjectAccessReviewsPvc k client namespace name spec c)
     = snd (loopPvc client spec (getResourceAttributesPvc k namespace name) c)"
  by (simp add: sendSubjectAccessReviewsPvc_def split: prod.splits sum.splits)

lemma pvc_log:
  "\<exists>n. 0 < n \<and> n \<le> 2 \<and>
     fst (snd (sendSubjectAccessReviewsPvc k (recording client) namespace name spec ([], c)))
       = map (review spec) (take n [datavolumesSource k namespace name, pods namespace name])"
  using loopPvc_log [of "getResourceAttributesPvc k namespace name" client spec "[]" c]
  by (auto simp add: pvc_state getResourceAttributesPvc_def)

lemma snapshot_log:
  "\<exists>n. n \<le> 2 \<and>
     fst (snd (sendSubjectAccessReviewsSnapshot k (recording client) namespace name spec ([], c)))
       = review spec (datavolumesSource k namespace name)
           # map (review spec) (take n [pods namespace name, pvcs namespace name])"
proof -
  let ?q = "review spec (datavolumesSource k namespace name)"
  obtain response err c' where step: "client c ?q = ((response, err), c')"
    by (metis surj_pair)
  show ?thesis
  proof (cases "err = None \<and> (\<exists>r. response = Some r \<and> \<not> Allowed (Status r))")
    case True
    then obtain r where r: "err = None" "response = Some r" "\<not> Allowed (Status r)" by blast
    have len: "length (getImplicitResourceAttributesSnapshot namespace name) = 2"
      by (simp add: getImplicitResourceAttributesSnapshot_def)
    from loopSnapshot_log [of "getImplicitResourceAttributesSnapshot namespace name"
        client namespace spec "[?q]" c']
    obtain n where n: "n \<le> length (getImplicitResourceAttributesSnapshot namespace name)"
      "fst (snd (loopSnapshot (recording client) namespace spec
                  (getImplicitResourceAttributesSnapshot namespace name) ([?q], c')))
         = [?q] @ map (review spec) (take n (getImplicitResourceAttributesSnapshot namespace name))"
      by blast
    have "fst (snd (sendSubjectAccessReviewsSnapshot k (recording client) namespace name spec
                 ([], c)))
          = ?q # map (review spec) (take n (getImplicitResourceAttributesSnapshot namespace name))"
      using step r n(2)
      by (auto simp add: sendSubjectAccessReviewsSnapshot_def
          getExplicitResourceAttributeSnapshot_def recording_step
          split: prod.splits sum.splits)
    then have "fst (snd (sendSubjectAccessReviewsSnapshot k (recording client) namespace name spec
                 ([], c)))
          = ?q # map (review spec) (take n [pods namespace name, pvcs namespace name])"
      by (simp add: getImplicitResourceAttributesSnapshot_def)
    with n(1) len show ?thesis by auto
  next
    case False
    then have "fst (snd (sendSubjectAccessReviewsSnapshot k (recording client) namespace name spec
                 ([], c))) = [?q]"
      using step
      by (cases err; cases response)
         (auto simp add: sendSubjectAccessReviewsSnapshot_def
            getExplicitResourceAttributeSnapshot_def recording_step)
    then show ?thesis by (intro exI [of _ 0]) simp
  qed
qed

lemma pvc_submitted:
  assumes "q \<in> set (fst (snd (sendSubjectAccessReviewsPvc k (recording client) namespace name
                      spec ([], c))))"
  shows "q = review spec (datavolumesSource k namespace name) \<or> q = review spec (pods namespace name)"
proof -
  from pvc_log [of k client namespace name spec c] obtain n where
    "fst (snd (sendSubjectAccessReviewsPvc k (recording client) namespace name spec ([], c)))
       = map (review spec) (take n [datavolumesSource k namespace name, pods namespace name])"
    by blast
  with assms have "q \<in> review spec ` set (take n [datavolumesSource k namespace name, pods namespace name])"
    by simp
  then obtain ra where "q = review spec ra"
    "ra \<in> set (take n [datavolumesSource k namespace name, pods namespace name])" by blast
  with set_take_subset [of n "[datavolumesSource k namespace name, pods namespace name]"]
  show ?thesis by auto
qed

lemma snapshot_submitted:
  assumes "q \<in> set (fst (snd (sendSubjectAccessReviewsSnapshot k (recording client) namespace
                      name spec ([], c))))"
  shows "q = review spec (datavolumesSource k namespace name) \<or> q = review spec (pods namespace name)
         \<or> q = review spec (pvcs namespace name)"
proof -
  from snapshot_log [of k client namespace name spec c] obtain n where
    "fst (snd (sendSubjectAccessReviewsSnapshot k (recording client) namespace name spec ([], c)))
       = review spec (datavolumesSource k namespace name)
           # map (review spec) (take n [pods namespace name, pvcs namespace name])"
    by blast
  with assms have "q = review spec (datavolumesSource k namespace name)
     \<or> q \<in> review spec ` set (take n [pods namespace name, pvcs namespace name])"
    by simp
  then consider "q = review spec (datavolumesSource k namespace name)"
    | ra where "q = review spec ra" "ra \<in> set (take n [pods namespace name, pvcs namespace name])"
    by blast
  then show ?thesis
  proof cases
    case 1
    then show ?thesis by simp
  next
    case 2
    with set_take_subset [of n "[pods namespace name, pvcs namespace name]"]
    show ?thesis by auto
  qed
qed

lemma pvc_count:
  "fst (snd (sendSubjectAccessReviewsPvc k (recording client) namespace name spec ([], c))) \<noteq> []
   \<and> length (fst (snd (sendSubjectAccessReviewsPvc k (recording client) namespace name spec
                ([], c)))) \<le> 2"
  using pvc_log [of k client namespace name spec c] by auto

lemma snapshot_count:
  "fst (snd (sendSubjectAccessReviewsSnapshot k (recording client) namespace name spec ([], c)))
     \<noteq> []
   \<and> length (fst (snd (sendSubjectAccessReviewsSnapshot k (recording client) namespace name spec
                ([], c)))) \<le> 3"
  using snapshot_log [of k client namespace name spec c] by auto

subsection \<open>The subject of a service account\<close>

text \<open>
  C7. For a service-account clone across namespaces (PVC or snapshot), at least one query
  is submitted, and every submitted query has the user
  \<^verbatim>\<open>system:serviceaccount:<saNamespace>:<saName>\<close>, exactly the three groups
  \<^verbatim>\<open>system:serviceaccounts\<close>, \<^verbatim>\<open>system:serviceaccounts:<saNamespace>\<close>,
  \<^verbatim>\<open>system:authenticated\<close> in this order, and no extra map, for any namespace and name
  strings.
\<close>

theorem service_account_subject:
  assumes "pvcNamespace \<noteq> saNamespace"
  shows
    "(let log = fst (snd (CanServiceAccountClonePVC k (recording client) pvcNamespace pvcName
                            saNamespace saName ([], c)))
      in log \<noteq> []
       \<and> (\<forall>q \<in> set log.
             User (Spec q) = ''system:serviceaccount:'' @ saNamespace @ '':'' @ saName
           \<and> Groups (Spec q) = [''system:serviceaccounts'',
                                 ''system:serviceaccounts:'' @ saNamespace,
                                 ''system:authenticated'']
           \<and> Extra (Spec q) = None))
   \<and> (let log = fst (snd (CanServiceAccountCloneSnapshot k (recording client) pvcNamespace
                            pvcName saNamespace saName ([], c)))
      in log \<noteq> []
       \<and> (\<forall>q \<in> set log.
             User (Spec q) = ''system:serviceaccount:'' @ saNamespace @ '':'' @ saName
           \<and> Groups (Spec q) = [''system:serviceaccounts'',
                                 ''system:serviceaccounts:'' @ saNamespace,
                                 ''system:authenticated'']
           \<and> Extra (Spec q) = None))"
proof -
  have pvc: "User (Spec q) = ''system:serviceaccount:'' @ saNamespace @ '':'' @ saName
           \<and> Groups (Spec q) = [''system:serviceaccounts'',
                                 ''system:serviceaccounts:'' @ saNamespace,
                                 ''system:authenticated'']
           \<and> Extra (Spec q) = None"
    if "q \<in> set (fst (snd (sendSubjectAccessReviewsPvc k (recording client) pvcNamespace pvcName
                       (serviceAccountSubject saNamespace saName) ([], c))))" for q
    using pvc_submitted [OF that] by auto
  have snap: "User (Spec q) = ''system:serviceaccount:'' @ saNamespace @ '':'' @ saName
           \<and> Groups (Spec q) = [''system:serviceaccounts'',
                                 ''system:serviceaccounts:'' @ saNamespace,
                                 ''system:authenticated'']
           \<and> Extra (Spec q) = None"
    if "q \<in> set (fst (snd (sendSubjectAccessReviewsSnapshot k (recording client) pvcNamespace
                       pvcName (serviceAccountSubject saNamespace saName) ([], c))))" for q
    using snapshot_submitted [OF that] by auto
  show ?thesis
    unfolding Let_def CanServiceAccountClonePVC_cross [OF assms]
      CanServiceAccountCloneSnapshot_cross [OF assms]
    using pvc snap pvc_count [of k client pvcNamespace pvcName
        "serviceAccountSubject saNamespace saName" c]
      snapshot_count [of k client pvcNamespace pvcName
        "serviceAccountSubject saNamespace saName" c]
    by blast
qed

theorem service_account_subject_witness:
  "map (\<lambda>q. (User (Spec q), Groups (Spec q), Extra (Spec q)))
      (fst (snd (CanServiceAccountClonePVC cdi (recording scripted) ''src'' ''data-1''
                   ''a:b/%s'' ''x y:z'' ([], [Deny, Deny :: string answer]))))
     = [(''system:serviceaccount:a:b/%s:x y:z'',
         [''system:serviceaccounts'', ''system:serviceaccounts:a:b/%s'', ''system:authenticated''],
         None),
        (''system:serviceaccount:a:b/%s:x y:z'',
         [''system:serviceaccounts'', ''system:serviceaccounts:a:b/%s'', ''system:authenticated''],
         None)]
   \<and> list_all (\<lambda>q. User (Spec q) = ''system:serviceaccount:a:b/%s:x y:z''
                 \<and> Groups (Spec q) = [''system:serviceaccounts'',
                       ''system:serviceaccounts:a:b/%s'', ''system:authenticated'']
                 \<and> Extra (Spec q) = None)
       (fst (snd (CanServiceAccountCloneSnapshot cdi (recording scripted) ''src'' ''snap-1''
                   ''a:b/%s'' ''x y:z'' ([], [Deny, Allow, Allow :: string answer]))))
   \<and> length (fst (snd (CanServiceAccountCloneSnapshot cdi (recording scripted) ''src''
                   ''snap-1'' ''a:b/%s'' ''x y:z'' ([], [Deny, Allow, Allow :: string answer]))))
       = 3"
  using
    service_account_subject [where pvcNamespace = "''src''" and saNamespace = "''a:b/%s''"
      and k = cdi and pvcName = "''data-1''" and saName = "''x y:z''" and client = scripted
      and c = "[Deny, Deny :: string answer]"]
    service_account_subject [where pvcNamespace = "''src''" and saNamespace = "''a:b/%s''"
      and k = cdi and pvcName = "''snap-1''" and saName = "''x y:z''" and client = scripted
      and c = "[Deny, Allow, Allow :: string answer]"]
  by (simp add: Let_def list_all_iff entry_defs send_defs recording_step)

subsection \<open>The extra attributes of a user\<close>

lemma newExtra_eq:
  "newExtra extra = (case extra of None \<Rightarrow> None
                     | Some m \<Rightarrow> if m = Map.empty then None else Some m)"
proof (cases extra)
  case None
  then show ?thesis by (simp add: newExtra_def)
next
  case (Some m)
  have copy: "(\<lambda>key. case m key of None \<Rightarrow> None | Some v \<Rightarrow> Some v) = m"
    by (rule ext) (simp split: option.split)
  from Some show ?thesis by (simp add: newExtra_def copy)
qed

text \<open>
  C8. For a user clone across namespaces (PVC or snapshot), at least one query is
  submitted, and every submitted query carries: the user's extra map itself (the same keys
  with the same value sequences) when that map has an entry; no map at all (\<^verbatim>\<open>nil\<close>) when
  the user's map is \<^verbatim>\<open>nil\<close> or empty.
\<close>

theorem user_extra_passed_through:
  assumes "sourceNamespace \<noteq> targetNamespace"
  shows
    "(let log = fst (snd (CanUserClonePVC k (recording client) sourceNamespace pvcName
                            targetNamespace userInfo ([], c)))
      in log \<noteq> []
       \<and> (\<forall>q \<in> set log.
             Extra (Spec q) = (case UserInfo.Extra userInfo of
                                 None \<Rightarrow> None
                               | Some m \<Rightarrow> if m = Map.empty then None else Some m)))
   \<and> (let log = fst (snd (CanUserCloneSnapshot k (recording client) sourceNamespace pvcName
                            targetNamespace userInfo ([], c)))
      in log \<noteq> []
       \<and> (\<forall>q \<in> set log.
             Extra (Spec q) = (case UserInfo.Extra userInfo of
                                 None \<Rightarrow> None
                               | Some m \<Rightarrow> if m = Map.empty then None else Some m)))"
proof -
  have pvc: "Extra (Spec q) = newExtra (UserInfo.Extra userInfo)"
    if "q \<in> set (fst (snd (sendSubjectAccessReviewsPvc k (recording client) sourceNamespace
                       pvcName (userSubject userInfo) ([], c))))" for q
    using pvc_submitted [OF that] by auto
  have snap: "Extra (Spec q) = newExtra (UserInfo.Extra userInfo)"
    if "q \<in> set (fst (snd (sendSubjectAccessReviewsSnapshot k (recording client)
                       sourceNamespace pvcName (userSubject userInfo) ([], c))))" for q
    using snapshot_submitted [OF that] by auto
  show ?thesis
    unfolding Let_def CanUserClonePVC_cross [OF assms] CanUserCloneSnapshot_cross [OF assms]
    using pvc snap
      pvc_count [of k client sourceNamespace pvcName "userSubject userInfo" c]
      snapshot_count [of k client sourceNamespace pvcName "userSubject userInfo" c]
    unfolding newExtra_eq by blast
qed

theorem user_extra_passed_through_witness:
  "list_all (\<lambda>q. Extra (Spec q) = Some [''scopes'' \<mapsto> [''a'', ''b'']])
      (fst (snd (CanUserClonePVC cdi (recording scripted) ''src'' ''data-1'' ''dst'' bob
                   ([], [Deny, Deny :: string answer]))))
   \<and> length (fst (snd (CanUserClonePVC cdi (recording scripted) ''src'' ''data-1'' ''dst'' bob
                   ([], [Deny, Deny :: string answer])))) = 2
   \<and> list_all (\<lambda>q. Extra (Spec q) = None)
      (fst (snd (CanUserCloneSnapshot cdi (recording scripted) ''src'' ''snap-1'' ''dst'' alice
                   ([], [Deny, Allow, Allow :: string answer]))))
   \<and> length (fst (snd (CanUserCloneSnapshot cdi (recording scripted) ''src'' ''snap-1'' ''dst''
                   alice ([], [Deny, Allow, Allow :: string answer])))) = 3
   \<and> list_all (\<lambda>q. Extra (Spec q) = None)
      (fst (snd (CanUserClonePVC cdi (recording scripted) ''src'' ''data-1'' ''dst''
                   \<lparr>Username = ''carol'', Groups = [], Extra = Some Map.empty\<rparr>
                   ([], [Deny, Deny :: string answer]))))"
proof -
  have nonempty: "[''scopes'' \<mapsto> [''a'', ''b'']] \<noteq> (Map.empty :: string \<rightharpoonup> ExtraValue)"
    by simp
  show ?thesis
    using nonempty
      user_extra_passed_through [where sourceNamespace = "''src''" and targetNamespace = "''dst''"
        and k = cdi and pvcName = "''data-1''" and userInfo = bob and client = scripted
        and c = "[Deny, Deny :: string answer]"]
      user_extra_passed_through [where sourceNamespace = "''src''" and targetNamespace = "''dst''"
        and k = cdi and pvcName = "''snap-1''" and userInfo = alice and client = scripted
        and c = "[Deny, Allow, Allow :: string answer]"]
      user_extra_passed_through [where sourceNamespace = "''src''" and targetNamespace = "''dst''"
        and k = cdi and pvcName = "''data-1''"
        and userInfo = "\<lparr>Username = ''carol'', Groups = [], Extra = Some Map.empty\<rparr>"
        and client = scripted and c = "[Deny, Deny :: string answer]"]
    by (simp add: Let_def list_all_iff bob_def alice_def entry_defs send_defs recording_step
        newExtra_eq)
qed

subsection \<open>Every query of a call: one subject, one object\<close>

text \<open>
  C10. Across namespaces, every query that any of the four operations submits carries the
  subject built for the call (its user, groups and extra map depend on the identity
  alone, so all queries of the call agree on them), and its resource attributes have verb
  \<^verbatim>\<open>create\<close>, the source namespace as namespace and the source object's name as name; this
  includes the pods and the pvcs queries.
\<close>

theorem every_query_subject_and_object:
  assumes "sourceNamespace \<noteq> targetNamespace" and "pvcNamespace \<noteq> saNamespace"
  shows
    "(\<forall>q \<in> set (fst (snd (CanUserClonePVC k (recording client) sourceNamespace pvcName
                            targetNamespace userInfo ([], c)))).
        carriesSubject q (userSubject userInfo) \<and> createOn q sourceNamespace pvcName)
   \<and> (\<forall>q \<in> set (fst (snd (CanServiceAccountClonePVC k (recording client) pvcNamespace pvcName
                            saNamespace saName ([], c)))).
        carriesSubject q (serviceAccountSubject saNamespace saName)
        \<and> createOn q pvcNamespace pvcName)
   \<and> (\<forall>q \<in> set (fst (snd (CanUserCloneSnapshot k (recording client) sourceNamespace pvcName
                            targetNamespace userInfo ([], c)))).
        carriesSubject q (userSubject userInfo) \<and> createOn q sourceNamespace pvcName)
   \<and> (\<forall>q \<in> set (fst (snd (CanServiceAccountCloneSnapshot k (recording client) pvcNamespace
                            pvcName saNamespace saName ([], c)))).
        carriesSubject q (serviceAccountSubject saNamespace saName)
        \<and> createOn q pvcNamespace pvcName)"
proof -
  have pvc: "carriesSubject q s \<and> createOn q namespace pvcName"
    if "q \<in> set (fst (snd (sendSubjectAccessReviewsPvc k (recording client) namespace pvcName
                       s ([], c))))" for q s namespace
    using pvc_submitted [OF that] by auto
  have snap: "carriesSubject q s \<and> createOn q namespace pvcName"
    if "q \<in> set (fst (snd (sendSubjectAccessReviewsSnapshot k (recording client) namespace
                       pvcName s ([], c))))" for q s namespace
    using snapshot_submitted [OF that] by auto
  show ?thesis
    unfolding CanUserClonePVC_cross [OF assms(1)] CanServiceAccountClonePVC_cross [OF assms(2)]
      CanUserCloneSnapshot_cross [OF assms(1)] CanServiceAccountCloneSnapshot_cross [OF assms(2)]
    by (intro conjI ballI; (drule pvc | drule snap); simp)
qed

theorem every_query_subject_and_object_witness:
  "map (\<lambda>q. (User (Spec q), Groups (Spec q), map_option (\<lambda>ra. (Verb ra, Namespace ra,
            Resource ra, Name ra)) (ResourceAttributes (Spec q))))
      (fst (snd (CanUserCloneSnapshot cdi (recording scripted) ''src'' ''snap-1'' ''dst'' bob
                   ([], [Deny, Allow, Allow :: string answer]))))
     = [(''bob'', [''dev''], Some (''create'', ''src'', ''datavolumes'', ''snap-1'')),
        (''bob'', [''dev''], Some (''create'', ''src'', ''pods'', ''snap-1'')),
        (''bob'', [''dev''], Some (''create'', ''src'', ''pvcs'', ''snap-1''))]
   \<and> list_all (\<lambda>q. carriesSubject q (userSubject bob) \<and> createOn q ''src'' ''snap-1'')
      (fst (snd (CanUserCloneSnapshot cdi (recording scripted) ''src'' ''snap-1'' ''dst'' bob
                   ([], [Deny, Allow, Allow :: string answer]))))
   \<and> list_all (\<lambda>q. carriesSubject q (serviceAccountSubject ''dst'' ''builder'')
                 \<and> createOn q ''src'' ''snap-1'')
      (fst (snd (CanServiceAccountClonePVC cdi (recording scripted) ''src'' ''snap-1'' ''dst''
                   ''builder'' ([], [Deny, Allow, Allow :: string answer]))))
   \<and> length (fst (snd (CanServiceAccountClonePVC cdi (recording scripted) ''src'' ''snap-1''
                   ''dst'' ''builder'' ([], [Deny, Allow, Allow :: string answer])))) = 2"
  using
    every_query_subject_and_object [where sourceNamespace = "''src''"
      and targetNamespace = "''dst''" and pvcNamespace = "''src''" and saNamespace = "''dst''"
      and k = cdi and pvcName = "''snap-1''" and userInfo = bob and saName = "''builder''"
      and client = scripted and c = "[Deny, Allow, Allow :: string answer]"]
  by (simp add: Let_def list_all_iff bob_def entry_defs send_defs recording_step)

subsection \<open>Number of queries and kind of result\<close>

lemma transcribing_step:
  "transcribing client (t, c) q
     = (fst (client c q), (t @ [(q, fst (client c q))], snd (client c q)))"
  by (simp add: transcribing_def split: prod.splits)





text \<open>
  The transcript holds the queries the recording client logs, and the call returns what
  the call through the client itself returns.
\<close>

lemma loopPvc_transcribing:
  "fst (loopPvc (transcribing client) spec ras (t, c))
     = fst (loopPvc (recording client) spec ras (map fst t, c))
   \<and> map fst (fst (snd (loopPvc (transcribing client) spec ras (t, c))))
     = fst (snd (loopPvc (recording client) spec ras (map fst t, c)))"
proof (induction ras arbitrary: t c)
  case Nil
  show ?case by simp
next
  case (Cons ra ras)
  obtain response err c' where step: "client c (review spec ra) = ((response, err), c')"
    by (metis surj_pair)
  with Cons.IH [of "t @ [(review spec ra, (response, err))]" c'] show ?case
    by (cases err; cases response) (simp_all add: recording_step transcribing_step Let_def)
qed

lemma loopSnapshot_transcribing:
  "fst (loopSnapshot (transcribing client) namespace spec ras (t, c))
     = fst (loopSnapshot (recording client) namespace spec ras (map fst t, c))
   \<and> map fst (fst (snd (loopSnapshot (transcribing client) namespace spec ras (t, c))))
     = fst (snd (loopSnapshot (recording client) namespace spec ras (map fst t, c)))"
proof (induction ras arbitrary: t c)
  case Nil
  show ?case by simp
next
  case (Cons ra ras)
  obtain response err c' where step: "client c (review spec ra) = ((response, err), c')"
    by (metis surj_pair)
  with Cons.IH [of "t @ [(review spec ra, (response, err))]" c'] show ?case
    by (cases err; cases response) (simp_all add: recording_step transcribing_step Let_def)
qed

lemma pvc_transcribing:
  "fst (sendSubjectAccessReviewsPvc k (transcribing client) namespace name spec ([], c))
     = fst (sendSubjectAccessReviewsPvc k (recording client) namespace name spec ([], c))
   \<and> map fst (fst (snd (sendSubjectAccessReviewsPvc k (transcribing client) namespace name spec
                          ([], c))))
     = fst (snd (sendSubjectAccessReviewsPvc k (recording client) namespace name spec ([], c)))"
proof -
  let ?ras = "getResourceAttributesPvc k namespace name"
  obtain r t' c' where a: "loopPvc (transcribing client) spec ?ras ([], c) = (r, (t', c'))"
    by (metis surj_pair)
  obtain r' l' c'' where b: "loopPvc (recording client) spec ?ras ([], c) = (r', (l', c''))"
    by (metis surj_pair)
  from loopPvc_transcribing [of client spec ?ras "[]" c] a b
  have "r = r'" "map fst t' = l'" by simp_all
  with a b show ?thesis
    by (simp add: sendSubjectAccessReviewsPvc_def split: sum.splits)
qed

lemma snapshot_transcribing:
  "fst (sendSubjectAccessReviewsSnapshot k (transcribing client) namespace name spec ([], c))
     = fst (sendSubjectAccessReviewsSnapshot k (recording client) namespace name spec ([], c))
   \<and> map fst (fst (snd (sendSubjectAccessReviewsSnapshot k (transcribing client) namespace name
                          spec ([], c))))
     = fst (snd (sendSubjectAccessReviewsSnapshot k (recording client) namespace name spec
                   ([], c)))"
proof -
  let ?q = "review spec (getExplicitResourceAttributeSnapshot k namespace name)"
  let ?ras = "getImplicitResourceAttributesSnapshot namespace name"
  obtain response err c' where step: "client c ?q = ((response, err), c')"
    by (metis surj_pair)
  obtain r t' c'' where
    a: "loopSnapshot (transcribing client) namespace spec ?ras ([(?q, (response, err))], c')
          = (r, (t', c''))"
    by (metis surj_pair)
  obtain r' l' c''' where
    b: "loopSnapshot (recording client) namespace spec ?ras ([?q], c') = (r', (l', c'''))"
    by (metis surj_pair)
  from loopSnapshot_transcribing [of client namespace spec ?ras "[(?q, (response, err))]" c'] a b
  have "r = r'" "map fst t' = l'" by simp_all
  with a b step show ?thesis
    by (cases err; cases response)
       (simp_all add: sendSubjectAccessReviewsSnapshot_def recording_step transcribing_step
          Let_def split: sum.splits)
qed

lemma entry_points_transcribing:
  "fst (CanUserClonePVC k (transcribing client) sourceNamespace pvcName targetNamespace userInfo
          ([], c))
     = fst (CanUserClonePVC k client sourceNamespace pvcName targetNamespace userInfo c)
   \<and> map fst (fst (snd (CanUserClonePVC k (transcribing client) sourceNamespace pvcName
                          targetNamespace userInfo ([], c))))
     = fst (snd (CanUserClonePVC k (recording client) sourceNamespace pvcName targetNamespace
                   userInfo ([], c)))"
  "fst (CanServiceAccountClonePVC k (transcribing client) pvcNamespace pvcName saNamespace
          saName ([], c))
     = fst (CanServiceAccountClonePVC k client pvcNamespace pvcName saNamespace saName c)
   \<and> map fst (fst (snd (CanServiceAccountClonePVC k (transcribing client) pvcNamespace pvcName
                          saNamespace saName ([], c))))
     = fst (snd (CanServiceAccountClonePVC k (recording client) pvcNamespace pvcName saNamespace
                   saName ([], c)))"
  "fst (CanUserCloneSnapshot k (transcribing client) sourceNamespace pvcName targetNamespace
          userInfo ([], c))
     = fst (CanUserCloneSnapshot k client sourceNamespace pvcName targetNamespace userInfo c)
   \<and> map fst (fst (snd (CanUserCloneSnapshot k (transcribing client) sourceNamespace pvcName
                          targetNamespace userInfo ([], c))))
     = fst (snd (CanUserCloneSnapshot k (recording client) sourceNamespace pvcName
                   targetNamespace userInfo ([], c)))"
  "fst (CanServiceAccountCloneSnapshot k (transcribing client) pvcNamespace pvcName saNamespace
          saName ([], c))
     = fst (CanServiceAccountCloneSnapshot k client pvcNamespace pvcName saNamespace saName c)
   \<and> map fst (fst (snd (CanServiceAccountCloneSnapshot k (transcribing client) pvcNamespace
                          pvcName saNamespace saName ([], c))))
     = fst (snd (CanServiceAccountCloneSnapshot k (recording client) pvcNamespace pvcName
                   saNamespace saName ([], c)))"
  using entry_points_recording [of k client _ pvcName _ _ "[]" c]
  by (simp_all add: entry_defs pvc_transcribing snapshot_transcribing pvc_recording
      snapshot_recording)




end
